theory Spec2Isabelle
  imports Main "HOL-Library.Sublist"
begin

text \<open>
  A model of the request-mirroring middleware: the path normalizer, the stream resolver,
  the credential provider with its token and issuer caches, the two transports and the
  middleware that \<open>mirror\<close> returns. What the module gets from outside (the clock, the
  random part of a request id, the identity provider, the ingestion endpoint) is a
  parameter of the model, and a run of the middleware is the list of the events it causes,
  in the order they happen.

  The model leaves out: an exception thrown by a routing callback; the properties a
  pattern map inherits from \<open>Object.prototype\<close> (a request path starts with a slash,
  none of their names does);
  a change of \<open>process.env\<close> between the call of \<open>mirror\<close> and a request; and runs of
  the middleware that overlap in time (a run is followed from its start to its end on the
  caches it finds).
\<close>

section \<open>JavaScript values and string helpers\<close>

text \<open>
  The values a stream id can take at run time. The documented type of a stream id is a
  string; a routing callback or a map entry can still hold any of the other values, and
  the middleware tests the resolved value for truthiness, so they are kept apart here.
\<close>

datatype jsval = JUndefined | JNull | JBool bool | JNum int | JStr string

fun truthy :: "jsval \<Rightarrow> bool" where
  "truthy JUndefined = False"
| "truthy JNull = False"
| "truthy (JBool b) = b"
| "truthy (JNum n) = (n \<noteq> 0)"
| "truthy (JStr s) = (s \<noteq> [])"

text \<open>
  An optional configuration string: \<open>None\<close> is \<open>undefined\<close>. \<open>truthyStr\<close> is the
  test JavaScript applies to it in \<open>a || b\<close>, \<open>a && b\<close> and \<open>!a\<close>; \<open>orElse\<close> is
  \<open>a || b\<close> on two optional strings and \<open>orDefault\<close> is \<open>a || 'literal'\<close>.
\<close>

fun truthyStr :: "string option \<Rightarrow> bool" where
  "truthyStr None = False"
| "truthyStr (Some s) = (s \<noteq> [])"

definition orElse :: "string option \<Rightarrow> string option \<Rightarrow> string option" where
  "orElse a b = (if truthyStr a then a else b)"

fun orDefault :: "string option \<Rightarrow> string \<Rightarrow> string" where
  "orDefault None d = d"
| "orDefault (Some s) d = (if s \<noteq> [] then s else d)"

text \<open>
  \<open>s.startsWith(p)\<close>, \<open>s.endsWith(p)\<close> and \<open>s.split('?')[0]\<close>. A string is the
  list of its bytes in UTF-8; equality, prefix and suffix of two strings, and the cut at
  the first \<open>?\<close>, are the same on the bytes as on the code units JavaScript compares.
\<close>

definition startsWith :: "string \<Rightarrow> string \<Rightarrow> bool" where
  "startsWith s p = (take (length p) s = p)"

definition endsWith :: "string \<Rightarrow> string \<Rightarrow> bool" where
  "endsWith s p = (length p \<le> length s \<and> drop (length s - length p) s = p)"

definition beforeQuery :: "string \<Rightarrow> string" where
  "beforeQuery u = takeWhile (\<lambda>c. c \<noteq> CHR ''?'') u"

section \<open>Requests and configuration\<close>

text \<open>A thrown or rejected \<open>Error\<close> with its message.\<close>

datatype error = Error string

fun message :: "error \<Rightarrow> string" where
  "message (Error m) = m"

text \<open>
  The fields of the host framework's request object that the middleware reads.
  \<open>req_body\<close> is \<open>None\<close> for a falsy body and otherwise holds what
  \<open>JSON.stringify\<close> does on it: the text it returns, or the error it throws (on a
  circular structure, say); \<open>req_query\<close> is \<open>None\<close> when the framework set no
  \<open>query\<close> field.
\<close>

record request =
  req_path :: "string option"
  req_url :: "string option"
  req_method :: string
  req_headers :: "(string \<times> string) list"
  req_body :: "(error + string) option"
  req_query :: "(string \<times> string) list option"

text \<open>
  \<open>config.streamId\<close>: absent, a string, an object (its own enumerable entries in the
  order \<open>Object.entries\<close> lists them, so the keys are distinct) or a function of the
  request.
\<close>

datatype routing =
    Unset
  | Single string
  | PatternMap "(string \<times> jsval) list"
  | Dynamic "request \<Rightarrow> jsval"

record config =
  cfg_streamId :: routing
  cfg_transport :: "string option"
  cfg_ingestGatewayUrl :: "string option"
  cfg_username :: "string option"
  cfg_password :: "string option"
  cfg_clientId :: "string option"
  cfg_clientSecret :: "string option"
  cfg_issuer :: "string option"
  cfg_authDomain :: "string option"
  cfg_audience :: "string option"

text \<open>The variables of \<open>process.env\<close> that the module reads.\<close>

record process_env =
  FRKR_STREAM_ID :: "string option"
  FRKR_TRANSPORT :: "string option"
  FRKR_INGEST_URL :: "string option"
  FRKR_USERNAME :: "string option"
  FRKR_PASSWORD :: "string option"
  FRKR_CLIENT_ID :: "string option"
  FRKR_CLIENT_SECRET :: "string option"

section \<open>Path normalizer\<close>

definition normalizePath :: "request \<Rightarrow> string" where
  "normalizePath req =
     (let path = (if \<not> truthyStr (req_path req) \<and> truthyStr (req_url req)
                  then map_option beforeQuery (req_url req)
                  else req_path req)
      in orDefault path ''/'')"

section \<open>Stream resolver\<close>

text \<open>\<open>config.streamId || process.env.FRKR_STREAM_ID\<close>\<close>

definition streamIdConfig :: "config \<Rightarrow> process_env \<Rightarrow> routing" where
  "streamIdConfig cfg env =
     (let fromEnv = (case FRKR_STREAM_ID env of None \<Rightarrow> Unset | Some s \<Rightarrow> Single s)
      in case cfg_streamId cfg of
           Unset \<Rightarrow> fromEnv
         | Single s \<Rightarrow> (if s \<noteq> [] then Single s else fromEnv)
         | PatternMap m \<Rightarrow> PatternMap m
         | Dynamic f \<Rightarrow> Dynamic f)"

text \<open>\<open>obj[key]\<close> on the entries of an object: \<open>undefined\<close> for a key it does not have.\<close>

definition getProp :: "(string \<times> jsval) list \<Rightarrow> string \<Rightarrow> jsval" where
  "getProp m k = (case map_of m k of None \<Rightarrow> JUndefined | Some v \<Rightarrow> v)"

text \<open>
  The \<open>for\<close> loop over \<open>Object.entries(streamIdConfig)\<close>: \<open>Some\<close> is the value the
  loop returns, \<open>None\<close> is falling out of the loop.
\<close>

fun prefixLoop :: "string \<Rightarrow> (string \<times> jsval) list \<Rightarrow> jsval option" where
  "prefixLoop path [] = None"
| "prefixLoop path ((pattern, streamId) # rest) =
     (if pattern = ''*'' \<or> pattern = path then prefixLoop path rest
      else if endsWith pattern ''/*'' then
        (let prefix = take (length pattern - 2) pattern
         in if path = prefix \<or> startsWith path (prefix @ ''/'') then Some streamId
            else prefixLoop path rest)
      else prefixLoop path rest)"

definition getStreamId :: "config \<Rightarrow> process_env \<Rightarrow> request \<Rightarrow> jsval" where
  "getStreamId cfg env req =
     (case streamIdConfig cfg env of
        Dynamic f \<Rightarrow> f req
      | PatternMap m \<Rightarrow>
          (let path = normalizePath req
           in if getProp m path \<noteq> JUndefined then getProp m path
              else (case prefixLoop path m of
                      Some streamId \<Rightarrow> streamId
                    | None \<Rightarrow> if getProp m ''*'' \<noteq> JUndefined then getProp m ''*'' else JNull))
      | Single s \<Rightarrow> JStr s
      | Unset \<Rightarrow> JNull)"

section \<open>Asynchronous calls, events and errors\<close>

text \<open>
  How a promise of the outside world (identity provider, ingestion endpoint) ends:
  \<open>Pending\<close> is a promise that never settles.
\<close>

datatype 'a settled = Fulfilled 'a | Rejected error | Pending

text \<open>\<open>String(n)\<close> for a non-negative integer \<open>n\<close>, and for any integer.\<close>

fun decimal :: "nat \<Rightarrow> string" where
  "decimal n =
     (if n < 10 then [char_of (48 + n)]
      else decimal (n div 10) @ [char_of (48 + n mod 10)])"

declare decimal.simps [simp del]

definition decimalInt :: "int \<Rightarrow> string" where
  "decimalInt i = (if i < 0 then ''-'' @ decimal (nat (- i)) else decimal (nat i))"

text \<open>The envelope sent to the ingestion endpoint (\<open>requestData\<close>).\<close>

record mirrored =
  m_method :: string
  m_path :: string
  m_headers :: "(string \<times> string) list"
  m_body :: string
  m_query :: "(string \<times> string) list"
  m_timestamp_ns :: int
  m_request_id :: string

record envelope =
  e_stream_id :: jsval
  e_request :: mirrored

text \<open>The discovered issuer object, named by the URL it was discovered at.\<close>

datatype issuer = Issuer string

text \<open>
  The token set a grant returns, as the module reads it: \<open>access_token\<close>, and
  \<open>expires_in\<close> in seconds (\<open>None\<close> when the provider gave no expiry).
\<close>

record tokenSet =
  access_token :: "string option"
  expires_in :: "int option"

text \<open>
  What one run of the middleware does that can be seen from outside, in the order it
  happens. \<open>Suspend\<close> marks an \<open>await\<close>: the running function hands control back to
  the event loop, and what follows in the trace runs in a later job. The host has control
  again at the first \<open>Suspend\<close> of a trace, so the events before it are the ones that
  happen synchronously with the call of the middleware. \<open>Throw\<close> is an error that
  nothing in the middleware catches: the run ends there and the promise the middleware
  returned is rejected.
\<close>

datatype event =
    CallNext
  | Suspend
  | Throw error
  | Discover string
  | Grant issuer "string option" "string option" string
  | HttpPost string envelope string
  | GrpcIngest string envelope "(string \<times> string) list"
  | LogError string string

text \<open>
  What the world outside gives to one run: the readings of \<open>Date.now()\<close> (in the cache
  test, when the expiry is stored, for the timestamp and for the request id), the random
  part of the request id, the identity provider (\<open>Issuer.discover\<close>; the client built
  from the issuer and its \<open>grant\<close>), what \<open>new URL(req.url, 'http://localhost')\<close>
  does on a raw url (the query parameters it parses, or the \<open>TypeError\<close> it throws on
  a url it cannot parse, such as \<open>//\<close>), and the replies of the ingestion endpoint.
\<close>

datatype http_reply = Status nat | ConnectionError string | NoReply

datatype grpc_reply = GrpcOk | GrpcError string | GrpcNoReply

record world =
  now_check :: int
  now_store :: int
  now_timestamp :: int
  now_request_id :: int
  random_suffix :: string
  discover :: "string \<Rightarrow> issuer settled"
  grant :: "issuer \<Rightarrow> string option \<Rightarrow> string option \<Rightarrow> string \<Rightarrow> tokenSet settled"
  url_query :: "string option \<Rightarrow> error + (string \<times> string) list"
  http_post :: "string \<Rightarrow> envelope \<Rightarrow> string \<Rightarrow> http_reply"
  grpc_ingest :: "string \<Rightarrow> envelope \<Rightarrow> (string \<times> string) list \<Rightarrow> grpc_reply"

section \<open>Credential provider\<close>

text \<open>The module-level \<open>tokenCache\<close> and \<open>issuerCache\<close>.\<close>

record token_cache =
  accessToken :: "string option"
  expiresAt :: int

record module_state =
  tokenCache :: token_cache
  issuerCache :: "issuer option"

definition initialState :: module_state where
  "initialState = \<lparr>tokenCache = \<lparr>accessToken = None, expiresAt = 0\<rparr>, issuerCache = None\<rparr>"

text \<open>
  The cache test \<open>tokenCache.accessToken && Date.now() < tokenCache.expiresAt - 60000\<close>:
  the cached token when the test passes.
\<close>

definition cachedToken :: "module_state \<Rightarrow> int \<Rightarrow> string option" where
  "cachedToken st now =
     (case accessToken (tokenCache st) of
        None \<Rightarrow> None
      | Some token \<Rightarrow>
          if token \<noteq> [] \<and> now < expiresAt (tokenCache st) - 60000 then Some token else None)"

text \<open>\<open>config.issuer || (config.authDomain ? `https://${config.authDomain}` : null)\<close>\<close>

definition issuerUrl :: "config \<Rightarrow> string option" where
  "issuerUrl cfg =
     (if truthyStr (cfg_issuer cfg) then cfg_issuer cfg
      else if truthyStr (cfg_authDomain cfg)
        then map_option (\<lambda>d. ''https://'' @ d) (cfg_authDomain cfg)
        else None)"

text \<open>
  The repository holds the entry module in two revisions. The model follows the one that
  sends through the transports of \<open>lib/transports\<close>, which the README and the
  specification describe. The revision it superseded has the same path normalizer, stream
  resolver and cache handling; its middleware posts with \<open>axios\<close> itself and calls
  \<open>next\<close> without testing its type, and its \<open>getAccessToken\<close> differs in one line:
  where no issuer and no auth domain is configured it does not throw but goes on with a
  fixed issuer URL. That \<open>getAccessToken\<close> is modelled beside the current one, as
  \<open>getAccessToken_superseded\<close>.
\<close>

definition issuerUrl_superseded :: "config \<Rightarrow> string" where
  "issuerUrl_superseded cfg =
     (if truthyStr (cfg_issuer cfg) then orDefault (cfg_issuer cfg) []
      else if truthyStr (cfg_authDomain cfg)
        then ''https://'' @ orDefault (cfg_authDomain cfg) []
        else ''https://dev-frkr.us.auth0.com'')"

text \<open>The \<open>catch\<close> block of \<open>getAccessToken\<close>: log the message, throw the error again.\<close>

definition rethrow ::
  "event list \<Rightarrow> error \<Rightarrow> module_state \<Rightarrow> event list \<times> string settled \<times> module_state" where
  "rethrow evs err st =
     (evs @ [LogError ''Failed to fetch access token:'' (message err)], Rejected err, st)"

text \<open>\<open>if (tokenSet.expires_in)\<close>: the expiry stored with a new token.\<close>

definition newExpiresAt :: "int \<Rightarrow> int option \<Rightarrow> int" where
  "newExpiresAt now expiresIn =
     (case expiresIn of
        None \<Rightarrow> now + 3600000
      | Some seconds \<Rightarrow> if seconds \<noteq> 0 then now + seconds * 1000 else now + 3600000)"

text \<open>Steps 2 to 4 of \<open>getAccessToken\<close>, from the client built on the issuer.\<close>

definition grantToken ::
  "world \<Rightarrow> config \<Rightarrow> event list \<Rightarrow> issuer \<Rightarrow> module_state
     \<Rightarrow> event list \<times> string settled \<times> module_state" where
  "grantToken w cfg evs iss st =
     (let audience = orDefault (cfg_audience cfg) ''https://api.frkr.io'';
          evs' = evs @ [Grant iss (cfg_clientId cfg) (cfg_clientSecret cfg) audience, Suspend]
      in case grant w iss (cfg_clientId cfg) (cfg_clientSecret cfg) audience of
           Pending \<Rightarrow> (evs', Pending, st)
         | Rejected err \<Rightarrow> rethrow evs' err st
         | Fulfilled tokens \<Rightarrow>
             (case access_token tokens of
                None \<Rightarrow> rethrow evs' (Error ''No access_token received from provider'') st
              | Some token \<Rightarrow>
                  if token \<noteq> [] then
                    (evs', Fulfilled token,
                     st\<lparr>tokenCache :=
                          \<lparr>accessToken = Some token,
                           expiresAt = newExpiresAt (now_store w) (expires_in tokens)\<rparr>\<rparr>)
                  else rethrow evs' (Error ''No access_token received from provider'') st))"

definition getAccessToken ::
  "world \<Rightarrow> config \<Rightarrow> module_state \<Rightarrow> event list \<times> string settled \<times> module_state" where
  "getAccessToken w cfg st =
     (case cachedToken st (now_check w) of
        Some token \<Rightarrow> ([], Fulfilled token, st)
      | None \<Rightarrow>
          (case issuerUrl cfg of
             None \<Rightarrow> rethrow [] (Error ''OIDC issuer or authDomain is required'') st
           | Some url \<Rightarrow>
               (case issuerCache st of
                  Some iss \<Rightarrow> grantToken w cfg [] iss st
                | None \<Rightarrow>
                    (case discover w url of
                       Pending \<Rightarrow> ([Discover url, Suspend], Pending, st)
                     | Rejected err \<Rightarrow> rethrow [Discover url, Suspend] err st
                     | Fulfilled iss \<Rightarrow>
                         grantToken w cfg [Discover url, Suspend] iss
                           (st\<lparr>issuerCache := Some iss\<rparr>)))))"

text \<open>
  \<open>getAccessToken\<close> of the superseded revision: the same steps, with the issuer URL of
  that revision, which is never missing.
\<close>

definition getAccessToken_superseded ::
  "world \<Rightarrow> config \<Rightarrow> module_state \<Rightarrow> event list \<times> string settled \<times> module_state" where
  "getAccessToken_superseded w cfg st =
     (case cachedToken st (now_check w) of
        Some token \<Rightarrow> ([], Fulfilled token, st)
      | None \<Rightarrow>
          (let url = issuerUrl_superseded cfg
           in case issuerCache st of
                Some iss \<Rightarrow> grantToken w cfg [] iss st
              | None \<Rightarrow>
                  (case discover w url of
                     Pending \<Rightarrow> ([Discover url, Suspend], Pending, st)
                   | Rejected err \<Rightarrow> rethrow [Discover url, Suspend] err st
                   | Fulfilled iss \<Rightarrow>
                       grantToken w cfg [Discover url, Suspend] iss
                         (st\<lparr>issuerCache := Some iss\<rparr>))))"

section \<open>Basic-auth header\<close>

text \<open>
  \<open>Buffer.from(s).toString('base64')\<close> of Node: the base64 encoding (RFC 4648, with
  padding) of the bytes of \<open>s\<close>. A \<open>char\<close> is one byte.
\<close>

definition base64Alphabet :: string where
  "base64Alphabet = ''ABCDEFGHIJKLMNOPQRSTUVWXYZabcdefghijklmnopqrstuvwxyz0123456789+/''"

definition sextet :: "nat \<Rightarrow> char" where
  "sextet n = base64Alphabet ! n"

fun base64 :: "nat list \<Rightarrow> string" where
  "base64 (a # b # c # rest) =
     sextet (a div 4) # sextet ((a mod 4) * 16 + b div 16) #
     sextet ((b mod 16) * 4 + c div 64) # sextet (c mod 64) # base64 rest"
| "base64 [a, b] =
     [sextet (a div 4), sextet ((a mod 4) * 16 + b div 16), sextet ((b mod 16) * 4), CHR ''='']"
| "base64 [a] = [sextet (a div 4), sextet ((a mod 4) * 16), CHR ''='', CHR ''='']"
| "base64 [] = []"

definition toBase64 :: "string \<Rightarrow> string" where
  "toBase64 s = base64 (map of_char s)"

section \<open>Transports\<close>

text \<open>
  \<open>axios.post\<close> with the default \<open>validateStatus\<close>: the promise is fulfilled by a 2xx
  response and rejected by any other status and by a connection error.
\<close>

definition axiosPost :: "http_reply \<Rightarrow> unit settled" where
  "axiosPost r =
     (case r of
        Status code \<Rightarrow>
          if 200 \<le> code \<and> code < 300 then Fulfilled ()
          else Rejected (Error (''Request failed with status code '' @ decimal code))
      | ConnectionError m \<Rightarrow> Rejected (Error m)
      | NoReply \<Rightarrow> Pending)"

text \<open>
  A call of \<open>send\<close>: the events of its synchronous part (up to its first \<open>await\<close>, or
  to its end), the events of the job that runs when the reply is in, and how the promise
  it returned ends.
\<close>

record sending =
  started :: "event list"
  completed :: "event list"
  outcome :: "unit settled"

text \<open>The constructors: \<open>this.ingestGatewayUrl\<close> and the address of the gRPC client.\<close>

definition HttpTransport_url :: "config \<Rightarrow> process_env \<Rightarrow> string" where
  "HttpTransport_url cfg env =
     orDefault (orElse (cfg_ingestGatewayUrl cfg) (FRKR_INGEST_URL env)) ''http://localhost:8082''"

definition GrpcTransport_address :: "config \<Rightarrow> process_env \<Rightarrow> string" where
  "GrpcTransport_address cfg env =
     orDefault (orElse (cfg_ingestGatewayUrl cfg) (FRKR_INGEST_URL env)) ''localhost:50051''"

definition HttpTransport_send :: "world \<Rightarrow> string \<Rightarrow> envelope \<Rightarrow> string \<Rightarrow> sending" where
  "HttpTransport_send w ingestGatewayUrl requestData authHeader =
     (let url = ingestGatewayUrl @ ''/ingest''
      in case axiosPost (http_post w url requestData authHeader) of
           Fulfilled u \<Rightarrow>
             \<lparr>started = [HttpPost url requestData authHeader], completed = [],
              outcome = Fulfilled ()\<rparr>
         | Rejected err \<Rightarrow>
             \<lparr>started = [HttpPost url requestData authHeader],
              completed = [LogError ''Failed to mirror request (HTTP):'' (message err)],
              outcome = Fulfilled ()\<rparr>
         | Pending \<Rightarrow>
             \<lparr>started = [HttpPost url requestData authHeader], completed = [],
              outcome = Pending\<rparr>)"

definition GrpcTransport_send :: "world \<Rightarrow> string \<Rightarrow> envelope \<Rightarrow> string \<Rightarrow> sending" where
  "GrpcTransport_send w address requestData authHeader =
     (let metadata = (if authHeader \<noteq> [] then [(''authorization'', authHeader)] else [])
      in \<lparr>started = [GrpcIngest address requestData metadata],
          completed =
            (case grpc_ingest w address requestData metadata of
               GrpcError m \<Rightarrow> [LogError ''Failed to mirror request (gRPC):'' m]
             | GrpcOk \<Rightarrow> []
             | GrpcNoReply \<Rightarrow> []),
          outcome = Fulfilled ()\<rparr>)"

section \<open>Middleware entry point\<close>

text \<open>\<open>config.transport || process.env.FRKR_TRANSPORT || 'http'\<close>\<close>

definition transportType :: "config \<Rightarrow> process_env \<Rightarrow> string" where
  "transportType cfg env = orDefault (orElse (cfg_transport cfg) (FRKR_TRANSPORT env)) ''http''"

definition transport_send ::
  "world \<Rightarrow> config \<Rightarrow> process_env \<Rightarrow> envelope \<Rightarrow> string \<Rightarrow> sending" where
  "transport_send w cfg env requestData authHeader =
     (if transportType cfg env = ''grpc''
      then GrpcTransport_send w (GrpcTransport_address cfg env) requestData authHeader
      else HttpTransport_send w (HttpTransport_url cfg env) requestData authHeader)"

definition username :: "config \<Rightarrow> process_env \<Rightarrow> string" where
  "username cfg env = orDefault (orElse (cfg_username cfg) (FRKR_USERNAME env)) ''testuser''"

definition password :: "config \<Rightarrow> process_env \<Rightarrow> string" where
  "password cfg env = orDefault (orElse (cfg_password cfg) (FRKR_PASSWORD env)) ''testpass''"

definition clientId :: "config \<Rightarrow> process_env \<Rightarrow> string option" where
  "clientId cfg env = orElse (cfg_clientId cfg) (FRKR_CLIENT_ID env)"

definition clientSecret :: "config \<Rightarrow> process_env \<Rightarrow> string option" where
  "clientSecret cfg env = orElse (cfg_clientSecret cfg) (FRKR_CLIENT_SECRET env)"

text \<open>
  The captured request data, built before the auth block and outside its \<open>try\<close>:
  \<open>Inl\<close> is the error \<open>JSON.stringify\<close> or \<open>new URL\<close> throws while the object is
  built (the body is evaluated before the query). The timestamp is kept as the exact
  product; JavaScript rounds it to the nearest double.
\<close>

definition requestData :: "world \<Rightarrow> jsval \<Rightarrow> request \<Rightarrow> error + envelope" where
  "requestData w streamId req =
     (case (case req_body req of None \<Rightarrow> Inr [] | Some serialised \<Rightarrow> serialised) of
        Inl err \<Rightarrow> Inl err
      | Inr body \<Rightarrow>
          (case (case req_query req of None \<Rightarrow> url_query w (req_url req) | Some q \<Rightarrow> Inr q) of
             Inl err \<Rightarrow> Inl err
           | Inr query \<Rightarrow>
               Inr \<lparr>e_stream_id = streamId,
                    e_request =
                      \<lparr>m_method = req_method req,
                       m_path = normalizePath req,
                       m_headers = req_headers req,
                       m_body = body,
                       m_query = query,
                       m_timestamp_ns = now_timestamp w * 1000000,
                       m_request_id =
                         ''req-'' @ decimalInt (now_request_id w) @ ''-'' @
                         random_suffix w\<rparr>\<rparr>))"

text \<open>\<open>{ ...config, clientId, clientSecret }\<close>: the configuration \<open>getAccessToken\<close> is given.\<close>

definition tokenConfig :: "config \<Rightarrow> process_env \<Rightarrow> config" where
  "tokenConfig cfg env =
     cfg\<lparr>cfg_clientId := clientId cfg env, cfg_clientSecret := clientSecret cfg env\<rparr>"

text \<open>
  The block that builds the auth header: the events of the token fetch, the header (or
  the error the \<open>try\<close> block catches) and the caches afterwards. With client id and
  secret the middleware waits for the promise of \<open>getAccessToken\<close>, so whatever comes
  after runs in a later job.
\<close>

definition buildAuthHeader ::
  "world \<Rightarrow> config \<Rightarrow> process_env \<Rightarrow> module_state
     \<Rightarrow> event list \<times> string settled \<times> module_state" where
  "buildAuthHeader w cfg env st =
     (if truthyStr (clientId cfg env) \<and> truthyStr (clientSecret cfg env) then
        (case getAccessToken w (tokenConfig cfg env) st of
           (evs, Fulfilled token, st') \<Rightarrow> (evs @ [Suspend], Fulfilled (''Bearer '' @ token), st')
         | (evs, Rejected err, st') \<Rightarrow> (evs @ [Suspend], Rejected err, st')
         | (evs, Pending, st') \<Rightarrow> (evs, Pending, st'))
      else
        (let credentials = toBase64 (username cfg env @ '':'' @ password cfg env)
         in ([], Fulfilled (''Basic '' @ credentials), st)))"

text \<open>
  The function \<open>mirror(config)\<close> returns, run on one request: the trace of the run and
  the caches afterwards. \<open>nextIsFunction\<close> is \<open>typeof next === 'function'\<close>.
\<close>

definition callNext :: "bool \<Rightarrow> event list" where
  "callNext nextIsFunction = (if nextIsFunction then [CallNext] else [])"

definition mirror ::
  "world \<Rightarrow> config \<Rightarrow> process_env \<Rightarrow> module_state \<Rightarrow> request \<Rightarrow> bool
     \<Rightarrow> event list \<times> module_state" where
  "mirror w cfg env st req nextIsFunction =
     (let streamId = getStreamId cfg env req
      in if \<not> truthy streamId then (callNext nextIsFunction, st)
         else
           (case requestData w streamId req of
              Inl thrown \<Rightarrow> ([Throw thrown], st)
            | Inr d \<Rightarrow>
                (case buildAuthHeader w cfg env st of
                   (evs, Rejected err, st') \<Rightarrow> (evs @ callNext nextIsFunction, st')
                 | (evs, Pending, st') \<Rightarrow> (evs, st')
                 | (evs, Fulfilled authHeader, st') \<Rightarrow>
                     (let s = transport_send w cfg env d authHeader
                      in (evs @ started s @ callNext nextIsFunction @ [Suspend] @ completed s @
                            (case outcome s of
                               Rejected err \<Rightarrow>
                                 [LogError
                                    (''Failed to mirror request ('' @ transportType cfg env @ ''):'')
                                    (message err)]
                             | Fulfilled u \<Rightarrow> []
                             | Pending \<Rightarrow> []),
                          st')))))"

section \<open>Reading a trace\<close>

text \<open>
  How often the continuation is called in a trace; the part of a trace that runs before
  the middleware first suspends; whether the continuation is called in that part; the
  trace up to the call of the continuation; the deliveries a trace starts.
\<close>

definition nextCalls :: "event list \<Rightarrow> nat" where
  "nextCalls t = length (filter (\<lambda>e. e = CallNext) t)"




fun isDispatch :: "event \<Rightarrow> bool" where
  "isDispatch (HttpPost url d h) = True"
| "isDispatch (GrpcIngest address d md) = True"
| "isDispatch e = False"


definition dispatches :: "event list \<Rightarrow> event list" where
  "dispatches t = filter isDispatch t"

definition usesClientCredentials :: "config \<Rightarrow> process_env \<Rightarrow> bool" where
  "usesClientCredentials cfg env =
     (truthyStr (clientId cfg env) \<and> truthyStr (clientSecret cfg env))"

section \<open>The prefix rule in the words of the specification\<close>

text \<open>
  The specification's prefix rule for one entry: the pattern is not the catch-all and not
  the path itself, it ends in \<open>/*\<close>, and the path equals the pattern without that
  suffix or starts with it followed by \<open>/\<close>. The resolver is compared with the first
  entry, in declared order, that this rule accepts.
\<close>

definition spec_prefixMatch :: "string \<Rightarrow> string \<times> jsval \<Rightarrow> bool" where
  "spec_prefixMatch path entry =
     (fst entry \<noteq> ''*'' \<and> fst entry \<noteq> path \<and> suffix ''/*'' (fst entry) \<and>
      (path = butlast (butlast (fst entry)) \<or>
       prefix (butlast (butlast (fst entry)) @ ''/'') path))"

section \<open>Example inputs\<close>

definition noConfig :: config where
  "noConfig =
     \<lparr>cfg_streamId = Unset, cfg_transport = None, cfg_ingestGatewayUrl = None,
      cfg_username = None, cfg_password = None, cfg_clientId = None,
      cfg_clientSecret = None, cfg_issuer = None, cfg_authDomain = None,
      cfg_audience = None\<rparr>"

definition noEnv :: process_env where
  "noEnv =
     \<lparr>FRKR_STREAM_ID = None, FRKR_TRANSPORT = None, FRKR_INGEST_URL = None,
      FRKR_USERNAME = None, FRKR_PASSWORD = None, FRKR_CLIENT_ID = None,
      FRKR_CLIENT_SECRET = None\<rparr>"

definition getRequest :: "string \<Rightarrow> request" where
  "getRequest p =
     \<lparr>req_path = Some p, req_url = Some p, req_method = ''GET'', req_headers = [],
      req_body = None, req_query = Some []\<rparr>"

text \<open>
  A request as a plain Node server hands it over, with a raw url and neither \<open>path\<close>
  nor \<open>query\<close>.
\<close>

definition rawRequest :: "string \<Rightarrow> request" where
  "rawRequest u =
     \<lparr>req_path = None, req_url = Some u, req_method = ''GET'', req_headers = [],
      req_body = None, req_query = None\<rparr>"

text \<open>The pattern map of the specification's examples, and one with the exact entry last.\<close>

definition specPatterns :: "(string \<times> jsval) list" where
  "specPatterns =
     [(''/api/v1/*'', JStr ''v1''), (''/api/*'', JStr ''api''), (''*'', JStr ''default'')]"

definition orderPatterns :: "(string \<times> jsval) list" where
  "orderPatterns =
     [(''/api/*'', JStr ''api-stream''), (''*'', JStr ''default''),
      (''/api/orders'', JStr ''orders-stream'')]"

text \<open>
  A world in which the identity provider and the ingestion endpoint refuse every
  connection, and variants of it: a provider that never answers, one whose grant fails
  after a successful discovery, and one that grants a token with \<open>expires_in\<close> 0.
\<close>

definition refusingWorld :: world where
  "refusingWorld =
     \<lparr>now_check = 1000, now_store = 2000, now_timestamp = 3000, now_request_id = 4000,
      random_suffix = ''k3j9x0q1z'',
      discover = (\<lambda>url. Rejected (Error ''connect ECONNREFUSED'')),
      grant = (\<lambda>iss cid secret audience. Rejected (Error ''connect ECONNREFUSED'')),
      url_query = (\<lambda>url. Inr []),
      http_post = (\<lambda>url d h. ConnectionError ''connect ECONNREFUSED''),
      grpc_ingest = (\<lambda>address d md. GrpcError ''14 UNAVAILABLE'')\<rparr>"

definition silentWorld :: world where
  "silentWorld = refusingWorld\<lparr>discover := (\<lambda>url. Pending)\<rparr>"

definition grantRefusedWorld :: world where
  "grantRefusedWorld = refusingWorld\<lparr>discover := (\<lambda>url. Fulfilled (Issuer url))\<rparr>"

definition zeroExpiryWorld :: world where
  "zeroExpiryWorld =
     refusingWorld
       \<lparr>discover := (\<lambda>url. Fulfilled (Issuer url)),
        grant := (\<lambda>iss cid secret audience.
                   Fulfilled \<lparr>access_token = Some ''tok'', expires_in = Some 0\<rparr>)\<rparr>"

text \<open>
  A world whose \<open>URL\<close> cannot parse the url \<open>//\<close>, and a world whose identity provider
  discovers every issuer and grants a token for an hour.
\<close>

definition strictUrlWorld :: world where
  "strictUrlWorld =
     refusingWorld
       \<lparr>url_query := (\<lambda>url. if url = Some ''//'' then Inl (Error ''Invalid URL'') else Inr [])\<rparr>"

definition grantingWorld :: world where
  "grantingWorld =
     refusingWorld
       \<lparr>discover := (\<lambda>url. Fulfilled (Issuer url)),
        grant := (\<lambda>iss cid secret audience.
                   Fulfilled \<lparr>access_token = Some ''tok'', expires_in = Some 3600\<rparr>)\<rparr>"

text \<open>The envelope of a GET request to \<open>/api\<close> for the stream \<open>my-api\<close> in these worlds.\<close>

definition exampleEnvelope :: envelope where
  "exampleEnvelope =
     \<lparr>e_stream_id = JStr ''my-api'',
      e_request =
        \<lparr>m_method = ''GET'', m_path = ''/api'', m_headers = [], m_body = [], m_query = [],
         m_timestamp_ns = 3000000000, m_request_id = ''req-4000-k3j9x0q1z''\<rparr>\<rparr>"

text \<open>Configurations: one stream with Basic auth, and one stream with client credentials.\<close>

definition basicConfig :: config where
  "basicConfig = noConfig\<lparr>cfg_streamId := Single ''my-api''\<rparr>"

definition credentialsConfig :: config where
  "credentialsConfig =
     noConfig
       \<lparr>cfg_streamId := Single ''my-api'', cfg_clientId := Some ''id'',
        cfg_clientSecret := Some ''secret'', cfg_authDomain := Some ''auth.example''\<rparr>"

section \<open>Verification of the stream resolver\<close>

lemma startsWith_prefix: "startsWith s p \<longleftrightarrow> prefix p s"
  unfolding startsWith_def prefix_def
  by (metis append_eq_conv_conj)

lemma endsWith_suffix: "endsWith s p \<longleftrightarrow> suffix p s"
proof
  assume "endsWith s p"
  then have "s = take (length s - length p) s @ p"
    unfolding endsWith_def by (metis append_take_drop_id)
  then show "suffix p s" unfolding suffix_def by blast
next
  assume "suffix p s"
  then obtain zs where "s = zs @ p" unfolding suffix_def by blast
  then show "endsWith s p" unfolding endsWith_def by simp
qed

lemma strip_wildcard: "take (length p - 2) p = butlast (butlast p)"
  by (simp add: butlast_conv_take numeral_2_eq_2)

text \<open>The loop returns the value of the first entry the specification's rule accepts.\<close>

lemma prefixLoop_find:
  "prefixLoop path m = map_option snd (find (spec_prefixMatch path) m)"
proof (induction m)
  case Nil
  show ?case by simp
next
  case (Cons e m)
  obtain pattern v where e: "e = (pattern, v)" by (cases e)
  show ?case
    using Cons.IH
    by (simp add: e spec_prefixMatch_def endsWith_suffix startsWith_prefix Let_def strip_wildcard)
qed

lemma normalizePath_getRequest: "p \<noteq> [] \<Longrightarrow> normalizePath (getRequest p) = p"
  by (simp add: normalizePath_def getRequest_def)

text \<open>
  Claim C2. With a pattern map as routing configuration, an entry whose pattern is the
  normalized path decides the stream: the resolver returns the value of that entry,
  wherever the entry stands in the map and whatever prefix-wildcard or catch-all entries
  stand before it. The keys of an object are distinct, and the value of the entry is a
  stream id, so it is not \<open>undefined\<close>.
\<close>

theorem C2_exact_match:
  assumes "distinct (map fst m)" and "(normalizePath req, v) \<in> set m" and "v \<noteq> JUndefined"
  shows "getStreamId (cfg\<lparr>cfg_streamId := PatternMap m\<rparr>) env req = v"
proof -
  from assms(1,2) have "map_of m (normalizePath req) = Some v" by simp
  then have "getProp m (normalizePath req) = v" by (simp add: getProp_def)
  with assms(3) show ?thesis
    by (simp add: getStreamId_def streamIdConfig_def Let_def)
qed

theorem C2_exact_match_witness:
  "distinct (map fst orderPatterns) \<and>
   (normalizePath (getRequest ''/api/orders''), JStr ''orders-stream'') \<in> set orderPatterns \<and>
   getStreamId (noConfig\<lparr>cfg_streamId := PatternMap orderPatterns\<rparr>) noEnv
     (getRequest ''/api/orders'') = JStr ''orders-stream''"
  using C2_exact_match
    [of orderPatterns "getRequest ''/api/orders''" "JStr ''orders-stream''" noConfig noEnv]
  by (simp add: orderPatterns_def normalizePath_getRequest)

text \<open>
  Claim C3. With a pattern map that has no exact match for the normalized path (the lookup
  of the path gives \<open>undefined\<close>, as it does when no entry has the path as its pattern),
  the resolver returns the value of the first entry, in declared order, whose pattern ends
  in \<open>/*\<close> and whose prefix (the pattern without that suffix) either equals the path or
  is followed by \<open>/\<close> at the start of the path; without such an entry it returns the
  catch-all's value, or \<open>null\<close>. In particular the path \<open>/api\<close> matches the pattern
  \<open>/api/*\<close>, by equality with the prefix.
\<close>

theorem C3_prefix_scan:
  assumes "getProp m (normalizePath req) = JUndefined"
  shows "getStreamId (cfg\<lparr>cfg_streamId := PatternMap m\<rparr>) env req =
           (case find (spec_prefixMatch (normalizePath req)) m of
              Some entry \<Rightarrow> snd entry
            | None \<Rightarrow> if getProp m ''*'' \<noteq> JUndefined then getProp m ''*'' else JNull) \<and>
         getStreamId (cfg\<lparr>cfg_streamId := PatternMap specPatterns\<rparr>) env (getRequest ''/api'') =
           JStr ''api''"
proof
  show "getStreamId (cfg\<lparr>cfg_streamId := PatternMap m\<rparr>) env req =
           (case find (spec_prefixMatch (normalizePath req)) m of
              Some entry \<Rightarrow> snd entry
            | None \<Rightarrow> if getProp m ''*'' \<noteq> JUndefined then getProp m ''*'' else JNull)"
    using assms
    by (simp add: getStreamId_def streamIdConfig_def Let_def prefixLoop_find split: option.splits)
  show "getStreamId (cfg\<lparr>cfg_streamId := PatternMap specPatterns\<rparr>) env (getRequest ''/api'') =
           JStr ''api''"
    by (simp add: getStreamId_def streamIdConfig_def Let_def normalizePath_getRequest
        specPatterns_def getProp_def endsWith_def startsWith_def)
qed

theorem C3_prefix_scan_witness:
  "getProp specPatterns (normalizePath (getRequest ''/api/health'')) = JUndefined \<and>
   find (spec_prefixMatch ''/api/health'') specPatterns = Some (''/api/*'', JStr ''api'') \<and>
   getStreamId (noConfig\<lparr>cfg_streamId := PatternMap specPatterns\<rparr>) noEnv
     (getRequest ''/api/health'') = JStr ''api''"
  using C3_prefix_scan [of specPatterns "getRequest ''/api/health''" noConfig noEnv]
  by (simp add: specPatterns_def normalizePath_getRequest getProp_def spec_prefixMatch_def
      suffix_to_prefix)

text \<open>
  Claim C4. When \<open>config.streamId\<close> is a function, the resolver calls it on the request
  and returns its result as it is, \<open>null\<close> included; neither the pattern-map rules nor
  the single-string rule are consulted, also when \<open>FRKR_STREAM_ID\<close> names a stream.
\<close>

theorem C4_dynamic_verbatim:
  "getStreamId (cfg\<lparr>cfg_streamId := Dynamic f\<rparr>) (env\<lparr>FRKR_STREAM_ID := other\<rparr>) req = f req"
  by (simp add: getStreamId_def streamIdConfig_def)

theorem C4_dynamic_verbatim_witness:
  "getStreamId (noConfig\<lparr>cfg_streamId := Dynamic (\<lambda>r. JNull)\<rparr>)
     (noEnv\<lparr>FRKR_STREAM_ID := Some ''my-api''\<rparr>) (getRequest ''/api'') = JNull"
  using C4_dynamic_verbatim
    [where cfg = noConfig and f = "\<lambda>r. JNull" and env = noEnv and other = "Some ''my-api''"
       and req = "getRequest ''/api''"]
  by simp

section \<open>Verification of the credential provider\<close>

subsection \<open>What a fetch leaves behind\<close>

lemma grantToken_rejected:
  "grantToken w cfg evs iss st = (evs', Rejected err, st') \<Longrightarrow> st' = st"
  by (auto simp: grantToken_def rethrow_def Let_def split: settled.splits option.splits if_splits)

lemma getAccessToken_rejected:
  assumes "getAccessToken w cfg st = (evs, Rejected err, st')"
  shows "tokenCache st' = tokenCache st"
  using assms
  by (auto simp: getAccessToken_def rethrow_def
      split: settled.splits option.splits if_splits dest!: grantToken_rejected)

lemma cachedToken_cong: "tokenCache st' = tokenCache st \<Longrightarrow> cachedToken st' = cachedToken st"
  by (rule ext) (simp add: cachedToken_def split: option.splits)

lemma grantToken_events:
  "grantToken w cfg evs iss st = (evs', r, st') \<Longrightarrow>
     \<exists>more. evs' = evs @ more \<and> CallNext \<notin> set more \<and> dispatches more = []"
  by (auto simp: grantToken_def rethrow_def Let_def dispatches_def
      split: settled.splits option.splits if_splits)

text \<open>A token fetch neither calls the continuation nor sends anything to the endpoint.\<close>

lemma getAccessToken_events:
  assumes "getAccessToken w cfg st = (evs, r, st')"
  shows "CallNext \<notin> set evs \<and> dispatches evs = []"
  using assms
  by (auto simp: getAccessToken_def rethrow_def dispatches_def
      split: settled.splits option.splits if_splits dest!: grantToken_events)

text \<open>A rejected discovery and a rejected grant make \<open>getAccessToken\<close> reject.\<close>

lemma discovery_failure:
  assumes "cachedToken st (now_check w) = None" and "issuerUrl cfg = Some url"
      and "issuerCache st = None" and "discover w url = Rejected err"
  shows "getAccessToken w cfg st =
           ([Discover url, Suspend, LogError ''Failed to fetch access token:'' (message err)],
            Rejected err, st)"
  using assms by (simp add: getAccessToken_def rethrow_def)

lemma grant_failure:
  assumes "cachedToken st (now_check w) = None" and "issuerUrl cfg = Some url"
      and "issuerCache st = Some iss"
      and "grant w iss (cfg_clientId cfg) (cfg_clientSecret cfg)
             (orDefault (cfg_audience cfg) ''https://api.frkr.io'') = Rejected err"
  shows "getAccessToken w cfg st =
           ([Grant iss (cfg_clientId cfg) (cfg_clientSecret cfg)
               (orDefault (cfg_audience cfg) ''https://api.frkr.io''), Suspend,
             LogError ''Failed to fetch access token:'' (message err)],
            Rejected err, st)"
  using assms by (simp add: getAccessToken_def grantToken_def rethrow_def Let_def)

lemma grant_failure_after_discovery:
  assumes "cachedToken st (now_check w) = None" and "issuerUrl cfg = Some url"
      and "issuerCache st = None" and "discover w url = Fulfilled iss"
      and "grant w iss (cfg_clientId cfg) (cfg_clientSecret cfg)
             (orDefault (cfg_audience cfg) ''https://api.frkr.io'') = Rejected err"
  shows "getAccessToken w cfg st =
           ([Discover url, Suspend,
             Grant iss (cfg_clientId cfg) (cfg_clientSecret cfg)
               (orDefault (cfg_audience cfg) ''https://api.frkr.io''), Suspend,
             LogError ''Failed to fetch access token:'' (message err)],
            Rejected err, st\<lparr>issuerCache := Some iss\<rparr>)"
  using assms by (simp add: getAccessToken_def grantToken_def rethrow_def Let_def)

text \<open>When the token fetch is rejected, the middleware calls the continuation and stops.\<close>

lemma mirror_rejected:
  assumes "truthy (getStreamId cfg env req)" and "usesClientCredentials cfg env"
      and "requestData w (getStreamId cfg env req) req = Inr d"
      and "getAccessToken w (tokenConfig cfg env) st = (evs, Rejected err, st')"
  shows "mirror w cfg env st req nf = (evs @ [Suspend] @ callNext nf, st')"
  using assms
  by (simp add: mirror_def buildAuthHeader_def usesClientCredentials_def Let_def)

text \<open>
  When the request data cannot be built, the run ends with the error: the token fetch is
  not started, nothing is sent and the continuation is not called.
\<close>

lemma mirror_thrown:
  assumes "truthy (getStreamId cfg env req)"
      and "requestData w (getStreamId cfg env req) req = Inl thrown"
  shows "mirror w cfg env st req nf = ([Throw thrown], st)"
  using assms by (simp add: mirror_def Let_def)

lemma requestData_example:
  assumes "url_query w = url_query refusingWorld"
      and "now_timestamp w = now_timestamp refusingWorld"
      and "now_request_id w = now_request_id refusingWorld"
      and "random_suffix w = random_suffix refusingWorld"
  shows "requestData w (JStr ''my-api'') (getRequest ''/api'') = Inr exampleEnvelope"
proof -
  have "decimalInt 4000 = ''4000''"
    unfolding decimalInt_def by code_simp
  then show ?thesis
    using assms
    by (simp add: requestData_def getRequest_def refusingWorld_def exampleEnvelope_def
        normalizePath_def)
qed

lemma requestData_getRequest:
  "requestData refusingWorld (JStr ''my-api'') (getRequest ''/api'') = Inr exampleEnvelope"
  by (rule requestData_example) simp_all

lemma credentials_stream:
  "getStreamId credentialsConfig noEnv (getRequest ''/api'') = JStr ''my-api''"
  by (simp add: getStreamId_def streamIdConfig_def credentialsConfig_def noConfig_def)


lemma tokenConfig_credentials:
  "tokenConfig credentialsConfig noEnv = credentialsConfig"
  by (simp add: tokenConfig_def credentialsConfig_def noConfig_def noEnv_def clientId_def
      clientSecret_def orElse_def)

lemma issuerUrl_credentials: "issuerUrl credentialsConfig = Some ''https://auth.example''"
  by (simp add: issuerUrl_def credentialsConfig_def noConfig_def)

lemma credentials_route:
  "truthy (getStreamId credentialsConfig noEnv (getRequest ''/api'')) \<and>
   usesClientCredentials credentialsConfig noEnv"
  by (simp add: getStreamId_def streamIdConfig_def usesClientCredentials_def clientId_def
      clientSecret_def orElse_def credentialsConfig_def noConfig_def)

lemma refused_discovery:
  "getAccessToken refusingWorld (tokenConfig credentialsConfig noEnv) initialState =
     ([Discover ''https://auth.example'', Suspend,
       LogError ''Failed to fetch access token:'' ''connect ECONNREFUSED''],
      Rejected (Error ''connect ECONNREFUSED''), initialState)"
  unfolding tokenConfig_credentials
  using discovery_failure [of initialState refusingWorld credentialsConfig
      "''https://auth.example''" "Error ''connect ECONNREFUSED''"]
  by (simp add: issuerUrl_credentials cachedToken_def initialState_def refusingWorld_def)

lemma refused_grant:
  "getAccessToken grantRefusedWorld (tokenConfig credentialsConfig noEnv) initialState =
     ([Discover ''https://auth.example'', Suspend,
       Grant (Issuer ''https://auth.example'') (Some ''id'') (Some ''secret'')
         ''https://api.frkr.io'', Suspend,
       LogError ''Failed to fetch access token:'' ''connect ECONNREFUSED''],
      Rejected (Error ''connect ECONNREFUSED''),
      initialState\<lparr>issuerCache := Some (Issuer ''https://auth.example'')\<rparr>)"
  unfolding tokenConfig_credentials
  by (simp add: getAccessToken_def grantToken_def rethrow_def cachedToken_def initialState_def
      issuerUrl_def grantRefusedWorld_def refusingWorld_def credentialsConfig_def noConfig_def
      Let_def)

subsection \<open>The token cache\<close>

text \<open>
  The parts of claim C5 that hold: a cached token that is not within 60 seconds of its
  expiry is returned with no call of the provider; a fetch that succeeds without the cache
  stores the granted token with the expiry \<open>newExpiresAt\<close> computes from the reading of
  the clock and the grant's \<open>expires_in\<close>, which is the reading plus \<open>expires_in\<close>
  seconds for an expiry other than 0 and the reading plus one hour when there is none.
\<close>

lemma getAccessToken_cache_hit:
  assumes "accessToken (tokenCache st) = Some token" and "token \<noteq> []"
      and "now_check w < expiresAt (tokenCache st) - 60000"
  shows "getAccessToken w cfg st = ([], Fulfilled token, st)"
  using assms by (simp add: getAccessToken_def cachedToken_def)

lemma grantToken_fulfilled:
  "grantToken w cfg evs iss st = (evs', Fulfilled token, st') \<Longrightarrow>
     \<exists>tokens. grant w iss (cfg_clientId cfg) (cfg_clientSecret cfg)
                 (orDefault (cfg_audience cfg) ''https://api.frkr.io'') = Fulfilled tokens \<and>
              access_token tokens = Some token \<and>
              tokenCache st' =
                \<lparr>accessToken = Some token,
                 expiresAt = newExpiresAt (now_store w) (expires_in tokens)\<rparr>"
  by (auto simp: grantToken_def rethrow_def Let_def split: settled.splits option.splits if_splits)

lemma getAccessToken_refresh:
  assumes "cachedToken st (now_check w) = None"
      and "getAccessToken w cfg st = (evs, Fulfilled token, st')"
  shows "\<exists>iss tokens.
           grant w iss (cfg_clientId cfg) (cfg_clientSecret cfg)
             (orDefault (cfg_audience cfg) ''https://api.frkr.io'') = Fulfilled tokens \<and>
           access_token tokens = Some token \<and>
           tokenCache st' =
             \<lparr>accessToken = Some token,
              expiresAt = newExpiresAt (now_store w) (expires_in tokens)\<rparr>"
  using assms
  by (auto simp: getAccessToken_def rethrow_def
      split: settled.splits option.splits if_splits dest!: grantToken_fulfilled)

lemma newExpiresAt_given:
  "seconds \<noteq> 0 \<Longrightarrow> newExpiresAt now (Some seconds) = now + seconds * 1000"
  by (simp add: newExpiresAt_def)

lemma newExpiresAt_absent: "newExpiresAt now None = now + 3600000"
  by (simp add: newExpiresAt_def)

text \<open>
  Claim C5. A cached token is returned without discovery or grant while the clock is more
  than 60 seconds before its expiry; otherwise the token is fetched again, and a fetch that
  succeeds sets the cache's expiry to the clock plus \<open>expires_in\<close> seconds when the
  provider returned an expiry, and to the clock plus one hour when it returned none.
  The module tests \<open>expires_in\<close> for truthiness, so a returned expiry of 0 is taken for
  a missing one: with the clock at 2000 when the token is stored, the expiry becomes
  3602000 and not 2000.
\<close>

theorem C5_zero_expiry_cached_for_one_hour:
  "getAccessToken zeroExpiryWorld credentialsConfig initialState =
     ([Discover ''https://auth.example'', Suspend,
       Grant (Issuer ''https://auth.example'') (Some ''id'') (Some ''secret'')
         ''https://api.frkr.io'', Suspend],
      Fulfilled ''tok'',
      \<lparr>tokenCache = \<lparr>accessToken = Some ''tok'', expiresAt = 2000 + 3600000\<rparr>,
       issuerCache = Some (Issuer ''https://auth.example'')\<rparr>)"
  by (simp add: getAccessToken_def grantToken_def cachedToken_def initialState_def
      issuerUrl_def zeroExpiryWorld_def refusingWorld_def credentialsConfig_def
      noConfig_def newExpiresAt_def Let_def)

text \<open>
  The revision the model follows: a token fetch that finds no usable cached token, with
  neither an issuer URL nor an auth domain configured, fails with the configuration error.
  The error is logged, \<open>getAccessToken\<close> rejects with it, no discovery and no grant is
  started, no issuer URL is made up and the caches stay as they were; the middleware then
  skips the mirror of the request, calling the continuation and sending nothing.
\<close>

lemma missing_issuer_current_revision:
  assumes "cachedToken st (now_check w) = None"
      and "\<not> truthyStr (cfg_issuer cfg)" and "\<not> truthyStr (cfg_authDomain cfg)"
  shows "getAccessToken w (tokenConfig cfg env) st =
           ([LogError ''Failed to fetch access token:'' ''OIDC issuer or authDomain is required''],
            Rejected (Error ''OIDC issuer or authDomain is required''), st) \<and>
         (truthy (getStreamId cfg env req) \<and> usesClientCredentials cfg env \<and>
          requestData w (getStreamId cfg env req) req = Inr d \<longrightarrow>
            mirror w cfg env st req True =
              ([LogError ''Failed to fetch access token:''
                  ''OIDC issuer or authDomain is required'', Suspend, CallNext], st))"
proof -
  have "issuerUrl (tokenConfig cfg env) = None"
    using assms(2,3) by (simp add: issuerUrl_def tokenConfig_def)
  then have fetch: "getAccessToken w (tokenConfig cfg env) st =
           ([LogError ''Failed to fetch access token:'' ''OIDC issuer or authDomain is required''],
            Rejected (Error ''OIDC issuer or authDomain is required''), st)"
    using assms(1) by (simp add: getAccessToken_def rethrow_def)
  then show ?thesis
    using mirror_rejected [of cfg env req w d st _ _ st True]
    by (simp add: callNext_def)
qed

text \<open>
  Claim C6. A token fetch with no cache hit and neither an issuer URL nor an auth domain
  configured fails with a configuration error, with no discovery, no grant and no issuer
  URL put in its place, and the mirror of the request is skipped. The revision the model
  follows does so (lemma \<open>missing_issuer_current_revision\<close>). The superseded revision
  does not: there the fetch takes the fixed issuer URL, discovers it, asks for the grant
  and returns the token it is given.
\<close>

theorem C6_superseded_revision_uses_fixed_issuer:
  "getAccessToken_superseded grantingWorld
     (tokenConfig (credentialsConfig\<lparr>cfg_authDomain := None\<rparr>) noEnv) initialState =
     ([Discover ''https://dev-frkr.us.auth0.com'', Suspend,
       Grant (Issuer ''https://dev-frkr.us.auth0.com'') (Some ''id'') (Some ''secret'')
         ''https://api.frkr.io'', Suspend],
      Fulfilled ''tok'',
      \<lparr>tokenCache = \<lparr>accessToken = Some ''tok'', expiresAt = 2000 + 3600 * 1000\<rparr>,
       issuerCache = Some (Issuer ''https://dev-frkr.us.auth0.com'')\<rparr>)"
  by (simp add: getAccessToken_superseded_def grantToken_def cachedToken_def initialState_def
      issuerUrl_superseded_def grantingWorld_def refusingWorld_def credentialsConfig_def
      noConfig_def noEnv_def tokenConfig_def clientId_def clientSecret_def orElse_def
      newExpiresAt_def Let_def)

text \<open>The superseded revision takes a fixed issuer URL there and goes on to discovery.\<close>

lemma getAccessToken_superseded_missing_issuer:
  assumes "cachedToken st (now_check w) = None" and "issuerCache st = None"
      and "\<not> truthyStr (cfg_issuer cfg)" and "\<not> truthyStr (cfg_authDomain cfg)"
  shows "\<exists>more r st'. getAccessToken_superseded w cfg st =
           (Discover ''https://dev-frkr.us.auth0.com'' # more, r, st')"
  using assms
  by (auto simp: getAccessToken_superseded_def issuerUrl_superseded_def rethrow_def
      grantToken_def Let_def split: settled.splits option.splits)

text \<open>In both revisions a rejected fetch leaves the token cache as it was.\<close>

lemma getAccessToken_superseded_rejected:
  assumes "getAccessToken_superseded w cfg st = (evs, Rejected err, st')"
  shows "tokenCache st' = tokenCache st"
  using assms
  by (auto simp: getAccessToken_superseded_def rethrow_def Let_def
      split: settled.splits option.splits if_splits dest!: grantToken_rejected)

lemma issuerUrl_superseded_default:
  assumes "\<not> truthyStr (cfg_issuer cfg)" and "\<not> truthyStr (cfg_authDomain cfg)"
  shows "issuerUrl cfg = None \<and> issuerUrl_superseded cfg = ''https://dev-frkr.us.auth0.com''"
  using assms by (simp add: issuerUrl_def issuerUrl_superseded_def)

text \<open>
  Claim C9. When the token fetch fails, be it in discovery or in the grant, the token cache
  is what it was before the attempt, so the next request finds the same cache and fetches
  again; the middleware, which has built the request data before the fetch, skips the
  mirror of the request, sending nothing, and calls the continuation once. The token
  fetch of the superseded revision leaves the token cache alone in the same way.
\<close>

theorem C9_failed_fetch_keeps_cache:
  assumes "getAccessToken w (tokenConfig cfg env) st = (evs, Rejected err, st')"
  shows "tokenCache st' = tokenCache st \<and> cachedToken st' = cachedToken st \<and>
         (truthy (getStreamId cfg env req) \<and> usesClientCredentials cfg env \<and>
          requestData w (getStreamId cfg env req) req = Inr d \<longrightarrow>
            mirror w cfg env st req True = (evs @ [Suspend, CallNext], st') \<and>
            dispatches (evs @ [Suspend, CallNext]) = [] \<and>
            nextCalls (evs @ [Suspend, CallNext]) = 1) \<and>
         (getAccessToken_superseded w2 cfg2 st2 = (evs2, Rejected err2, st2') \<longrightarrow>
            tokenCache st2' = tokenCache st2)"
proof -
  have cache: "tokenCache st' = tokenCache st"
    using assms by (rule getAccessToken_rejected)
  have evs: "CallNext \<notin> set evs \<and> dispatches evs = []"
    using assms by (rule getAccessToken_events)
  have "nextCalls (evs @ [Suspend, CallNext]) = 1"
    using evs by (auto simp: nextCalls_def filter_empty_conv)
  moreover have "dispatches (evs @ [Suspend, CallNext]) = []"
    using evs by (simp add: dispatches_def)
  moreover have "truthy (getStreamId cfg env req) \<and> usesClientCredentials cfg env \<and>
      requestData w (getStreamId cfg env req) req = Inr d \<longrightarrow>
      mirror w cfg env st req True = (evs @ [Suspend, CallNext], st')"
    using mirror_rejected [OF _ _ _ assms, of req d True] by (simp add: callNext_def)
  moreover have "getAccessToken_superseded w2 cfg2 st2 = (evs2, Rejected err2, st2') \<longrightarrow>
      tokenCache st2' = tokenCache st2"
    by (auto dest: getAccessToken_superseded_rejected)
  ultimately show ?thesis
    using cache cachedToken_cong [OF cache] by simp
qed

theorem C9_failed_fetch_keeps_cache_witness:
  "requestData refusingWorld (getStreamId credentialsConfig noEnv (getRequest ''/api''))
     (getRequest ''/api'') = Inr exampleEnvelope \<and>
   mirror refusingWorld credentialsConfig noEnv initialState (getRequest ''/api'') True =
     ([Discover ''https://auth.example'', Suspend,
       LogError ''Failed to fetch access token:'' ''connect ECONNREFUSED'', Suspend, CallNext],
      initialState) \<and>
   mirror grantRefusedWorld credentialsConfig noEnv initialState (getRequest ''/api'') True =
     ([Discover ''https://auth.example'', Suspend,
       Grant (Issuer ''https://auth.example'') (Some ''id'') (Some ''secret'')
         ''https://api.frkr.io'', Suspend,
       LogError ''Failed to fetch access token:'' ''connect ECONNREFUSED'', Suspend, CallNext],
      initialState\<lparr>issuerCache := Some (Issuer ''https://auth.example'')\<rparr>) \<and>
   tokenCache (initialState\<lparr>issuerCache := Some (Issuer ''https://auth.example'')\<rparr>) =
     tokenCache initialState"
proof -
  have built: "requestData refusingWorld (getStreamId credentialsConfig noEnv (getRequest ''/api''))
     (getRequest ''/api'') = Inr exampleEnvelope"
    by (simp add: credentials_stream requestData_getRequest)
  have built': "requestData grantRefusedWorld
     (getStreamId credentialsConfig noEnv (getRequest ''/api'')) (getRequest ''/api'') =
     Inr exampleEnvelope"
    unfolding credentials_stream
    by (rule requestData_example) (simp_all add: grantRefusedWorld_def)
  show ?thesis
    using C9_failed_fetch_keeps_cache
        [OF refused_discovery, of "getRequest ''/api''" exampleEnvelope]
      C9_failed_fetch_keeps_cache [OF refused_grant, of "getRequest ''/api''" exampleEnvelope]
      credentials_route built built'
    by simp
qed

section \<open>Verification of the auth header and the HTTP transport\<close>

text \<open>
  Claim C7. When client id and client secret are not both present (none of them, or one of
  them only), the auth header is \<open>Basic\<close>, a space, and the base64 encoding of username,
  colon, password. Building it always succeeds, starts no discovery and no grant, and
  leaves the caches alone.
\<close>

theorem C7_basic_auth_header:
  assumes "\<not> (truthyStr (clientId cfg env) \<and> truthyStr (clientSecret cfg env))"
  shows "buildAuthHeader w cfg env st =
           ([], Fulfilled (''Basic '' @ toBase64 (username cfg env @ '':'' @ password cfg env)), st)"
  using assms by (auto simp: buildAuthHeader_def Let_def)

lemma toBase64_u_p: "toBase64 ''u:p'' = ''dTpw''"
  by code_simp

theorem C7_basic_auth_header_witness:
  "\<not> (truthyStr (clientId (noConfig\<lparr>cfg_clientId := Some ''id'', cfg_username := Some ''u'',
                                      cfg_password := Some ''p''\<rparr>) noEnv) \<and>
       truthyStr (clientSecret (noConfig\<lparr>cfg_clientId := Some ''id'', cfg_username := Some ''u'',
                                          cfg_password := Some ''p''\<rparr>) noEnv)) \<and>
   buildAuthHeader refusingWorld
     (noConfig\<lparr>cfg_clientId := Some ''id'', cfg_username := Some ''u'', cfg_password := Some ''p''\<rparr>)
     noEnv initialState = ([], Fulfilled ''Basic dTpw'', initialState)"
  using C7_basic_auth_header
    [of "noConfig\<lparr>cfg_clientId := Some ''id'', cfg_username := Some ''u'', cfg_password := Some ''p''\<rparr>"
       noEnv refusingWorld initialState]
  by (simp add: clientId_def clientSecret_def username_def password_def orElse_def noConfig_def
      noEnv_def toBase64_u_p)

text \<open>
  Claim C8. The promise \<open>send\<close> of the HTTP transport returns is never rejected, whatever
  the envelope, the auth header and the reply: when the post fails, by a connection error
  or by a response outside 2xx, \<open>send\<close> catches the error, logs its message and ends
  normally.
\<close>

theorem C8_http_send_never_rejects:
  "outcome (HttpTransport_send w url d h) \<noteq> Rejected err \<and>
   (axiosPost (http_post w (url @ ''/ingest'') d h) = Rejected err \<longrightarrow>
      HttpTransport_send w url d h =
        \<lparr>started = [HttpPost (url @ ''/ingest'') d h],
         completed = [LogError ''Failed to mirror request (HTTP):'' (message err)],
         outcome = Fulfilled ()\<rparr>)"
  by (simp add: HttpTransport_send_def Let_def split: settled.splits)

lemma decimal_500: "decimal 500 = ''500''"
  by code_simp

theorem C8_http_send_never_rejects_witness:
  "axiosPost (http_post refusingWorld (''http://localhost:8082'' @ ''/ingest'')
      exampleEnvelope ''Basic dTpw'') =
     Rejected (Error ''connect ECONNREFUSED'') \<and>
   HttpTransport_send refusingWorld ''http://localhost:8082''
      exampleEnvelope ''Basic dTpw'' =
     \<lparr>started = [HttpPost (''http://localhost:8082'' @ ''/ingest'')
                   exampleEnvelope
                   ''Basic dTpw''],
      completed = [LogError ''Failed to mirror request (HTTP):'' ''connect ECONNREFUSED''],
      outcome = Fulfilled ()\<rparr> \<and>
   axiosPost (Status 500) = Rejected (Error ''Request failed with status code 500'')"
  using C8_http_send_never_rejects
    [of refusingWorld "''http://localhost:8082''"
       exampleEnvelope "''Basic dTpw''"
       "Error ''connect ECONNREFUSED''"]
  by (simp add: axiosPost_def refusingWorld_def decimal_500)

section \<open>Verification of the middleware\<close>

text \<open>
  Claim C10. When the resolved stream id is falsy, the middleware skips mirroring and
  calls the continuation, as it does for \<open>null\<close>. This covers the values other than
  \<open>null\<close>, such as the empty string that an entry of a pattern map or a routing callback
  gives.
\<close>

theorem C10_falsy_stream_id_skips:
  assumes "getStreamId cfg env req = v" and "\<not> truthy v"
  shows "mirror w cfg env st req True = ([CallNext], st)"
  using assms by (simp add: mirror_def callNext_def Let_def)

theorem C10_falsy_stream_id_skips_witness:
  "getStreamId (noConfig\<lparr>cfg_streamId := PatternMap [(''/x'', JStr [])]\<rparr>) noEnv
     (getRequest ''/x'') = JStr [] \<and>
   JStr [] \<noteq> JNull \<and> \<not> truthy (JStr []) \<and>
   mirror refusingWorld (noConfig\<lparr>cfg_streamId := PatternMap [(''/x'', JStr [])]\<rparr>) noEnv
     initialState (getRequest ''/x'') True = ([CallNext], initialState) \<and>
   mirror refusingWorld (noConfig\<lparr>cfg_streamId := Dynamic (\<lambda>r. JStr [])\<rparr>) noEnv
     initialState (getRequest ''/x'') True = ([CallNext], initialState)"
proof -
  have entry: "getStreamId (noConfig\<lparr>cfg_streamId := PatternMap [(''/x'', JStr [])]\<rparr>) noEnv
     (getRequest ''/x'') = JStr []"
    by (simp add: getStreamId_def streamIdConfig_def Let_def getProp_def normalizePath_getRequest)
  have callback: "getStreamId (noConfig\<lparr>cfg_streamId := Dynamic (\<lambda>r. JStr [])\<rparr>) noEnv
     (getRequest ''/x'') = JStr []"
    by (simp add: getStreamId_def streamIdConfig_def)
  show ?thesis
    using C10_falsy_stream_id_skips [OF entry, of refusingWorld initialState]
      C10_falsy_stream_id_skips [OF callback, of refusingWorld initialState] entry
    by simp
qed

subsection \<open>The shape of a run\<close>















text \<open>
  While the identity provider does not answer, the middleware stays suspended in the token
  fetch and the continuation is not called.
\<close>

lemma silent_provider_blocks_next:
  "mirror silentWorld credentialsConfig noEnv initialState (getRequest ''/api'') True =
     ([Discover ''https://auth.example'', Suspend], initialState) \<and>
   nextCalls (fst (mirror silentWorld credentialsConfig noEnv initialState (getRequest ''/api'')
     True)) = 0"
proof -
  have "getAccessToken silentWorld (tokenConfig credentialsConfig noEnv) initialState =
      ([Discover ''https://auth.example'', Suspend], Pending, initialState)"
    unfolding tokenConfig_credentials
    by (simp add: getAccessToken_def issuerUrl_credentials cachedToken_def initialState_def
        silentWorld_def refusingWorld_def)
  moreover have "requestData silentWorld (JStr ''my-api'') (getRequest ''/api'') =
      Inr exampleEnvelope"
    by (rule requestData_example) (simp_all add: silentWorld_def)
  ultimately have
    "mirror silentWorld credentialsConfig noEnv initialState (getRequest ''/api'') True =
     ([Discover ''https://auth.example'', Suspend], initialState)"
    using credentials_route
    by (simp add: mirror_def buildAuthHeader_def usesClientCredentials_def Let_def
        credentials_stream)
  then show ?thesis by (simp add: nextCalls_def)
qed

text \<open>
  A request without \<open>query\<close> whose url \<open>URL\<close> cannot parse: the request data cannot
  be built, the middleware throws and the continuation is not called.
\<close>

lemma unparsable_url_blocks_next:
  "mirror strictUrlWorld basicConfig noEnv initialState (rawRequest ''//'') True =
     ([Throw (Error ''Invalid URL'')], initialState) \<and>
   nextCalls (fst (mirror strictUrlWorld basicConfig noEnv initialState (rawRequest ''//'')
     True)) = 0"
proof -
  have "truthy (getStreamId basicConfig noEnv (rawRequest ''//''))"
    by (simp add: getStreamId_def streamIdConfig_def basicConfig_def noConfig_def)
  moreover have "requestData strictUrlWorld (getStreamId basicConfig noEnv (rawRequest ''//''))
      (rawRequest ''//'') = Inl (Error ''Invalid URL'')"
    by (simp add: requestData_def rawRequest_def strictUrlWorld_def)
  ultimately have "mirror strictUrlWorld basicConfig noEnv initialState (rawRequest ''//'') True =
     ([Throw (Error ''Invalid URL'')], initialState)"
    by (rule mirror_thrown)
  then show ?thesis by (simp add: nextCalls_def)
qed




end
